theory Spec2Isabelle
  imports Main "HOL-Library.AList"
begin

section \<open>Python primitives used by the bot\<close>

text \<open>
  A Python \<open>str\<close> is modelled as a \<open>string\<close>; one list element stands for one character
  of the Python string, so \<open>length\<close> is Python's \<open>len\<close>. The only character the code
  tells apart from the others is the line feed.
\<close>

definition newline :: char where
  "newline = CHR 0x0A"

text \<open>\<open>s[:k]\<close>: a negative \<open>k\<close> counts from the end and is clamped at the start.\<close>

definition slice_to :: "'a list \<Rightarrow> int \<Rightarrow> 'a list" where
  "slice_to xs k =
     (if 0 \<le> k then take (nat k) xs else take (nat (int (length xs) + k)) xs)"

text \<open>\<open>s[k:]\<close>, with the same treatment of a negative \<open>k\<close>.\<close>

definition slice_from :: "'a list \<Rightarrow> int \<Rightarrow> 'a list" where
  "slice_from xs k =
     (if 0 \<le> k then drop (nat k) xs else drop (nat (int (length xs) + k)) xs)"

text \<open>\<open>s.rfind(c)\<close> for a one-character \<open>c\<close>: the highest index holding \<open>c\<close>, or \<open>-1\<close>.\<close>

fun rfind :: "'a list \<Rightarrow> 'a \<Rightarrow> int" where
  "rfind [] c = -1"
| "rfind (x # xs) c =
     (let r = rfind xs c in
      if 0 \<le> r then r + 1 else if x = c then 0 else -1)"

text \<open>\<open>s.lstrip("\n")\<close>.\<close>

definition lstrip_newline :: "string \<Rightarrow> string" where
  "lstrip_newline s = dropWhile (\<lambda>c. c = newline) s"

section \<open>main.py: split_message\<close>

definition TELEGRAM_MESSAGE_LIMIT :: int where
  "TELEGRAM_MESSAGE_LIMIT = 4096"

text \<open>
  The body of the \<open>while\<close> loop up to the choice of \<open>cut\<close>:
  \<open>block = rest[:max_length]\<close>, \<open>last_newline = block.rfind("\n")\<close>, then
  \<open>cut = last_newline + 1\<close> if \<open>last_newline > max_length // 2\<close> and \<open>max_length\<close>
  otherwise. Python's \<open>//\<close> rounds down, as \<open>div\<close> on \<open>int\<close> does.
\<close>

definition cut_point :: "string \<Rightarrow> int \<Rightarrow> int" where
  "cut_point rest max_length =
     (let block = slice_to rest max_length;
          last_newline = rfind block newline
      in if last_newline > max_length div 2 then last_newline + 1 else max_length)"

text \<open>The piece appended by one iteration, \<open>rest[:cut]\<close>.\<close>

definition next_chunk :: "string \<Rightarrow> int \<Rightarrow> string" where
  "next_chunk rest max_length = slice_to rest (cut_point rest max_length)"

text \<open>The text left for the next iteration, \<open>rest[cut:].lstrip("\n")\<close>.\<close>

definition next_rest :: "string \<Rightarrow> int \<Rightarrow> string" where
  "next_rest rest max_length =
     lstrip_newline (slice_from rest (cut_point rest max_length))"

text \<open>
  The loop \<open>while rest: ...\<close>. It need not end, so it is a partial function: the value
  \<open>None\<close> stands for a run that never returns.
\<close>

partial_function (option) split_loop :: "string \<Rightarrow> int \<Rightarrow> string list \<Rightarrow> string list option"
where
  "split_loop rest max_length chunks =
     (if rest = [] then Some chunks
      else if int (length rest) \<le> max_length then Some (chunks @ [rest])
      else split_loop (next_rest rest max_length) max_length
             (chunks @ [next_chunk rest max_length]))"

definition split_message :: "string \<Rightarrow> int \<Rightarrow> string list option" where
  "split_message text max_length =
     (if int (length text) \<le> max_length
      then Some (if text \<noteq> [] then [text] else [])
      else split_loop text max_length [])"

section \<open>memory.py: JSON documents and chat keys\<close>

text \<open>
  A Python \<open>dict\<close> is an association list in insertion order: \<open>key in d\<close> is
  \<open>map_of d key \<noteq> None\<close>, and \<open>d[key] = v\<close> is \<open>AList.update key v d\<close>, which
  overwrites an existing key in place and appends a new one at the end.

  \<open>_load_json(path)\<close> returns the parsed document, or the empty dictionary when the file
  is missing, unreadable or not valid JSON. The file is a value \<open>'a option\<close>, with
  \<open>None\<close> for each of those three cases and \<open>Some\<close> for a JSON object. The files that are
  neither have \<open>load_json_document\<close> below.
\<close>

definition load_json :: "('k \<times> 'v) list option \<Rightarrow> ('k \<times> 'v) list" where
  "load_json doc = (case doc of None \<Rightarrow> [] | Some d \<Rightarrow> d)"

text \<open>\<open>str(n)\<close> for an integer: decimal digits, with a minus sign when negative.\<close>

definition digit_char :: "nat \<Rightarrow> char" where
  "digit_char d = char_of (48 + d)"

fun str_nat :: "nat \<Rightarrow> string" where
  "str_nat n = (if n < 10 then [digit_char n] else str_nat (n div 10) @ [digit_char (n mod 10)])"

declare str_nat.simps [simp del]

definition str_int :: "int \<Rightarrow> string" where
  "str_int i = (if i < 0 then CHR ''-'' # str_nat (nat (- i)) else str_nat (nat i))"

definition chat_key :: "int \<Rightarrow> string" where
  "chat_key chat_id = str_int chat_id"

section \<open>config.py: limits\<close>

definition MAX_USER_MESSAGES :: int where
  "MAX_USER_MESSAGES = 10"

definition MAX_ASSISTANT_MESSAGES :: int where
  "MAX_ASSISTANT_MESSAGES = 10"

section \<open>memory.py: prompts\<close>

text \<open>
  An entry of \<open>prompts\<close> is a dictionary read with \<open>.get\<close> and a default, so each of
  its keys may be absent. The empty dictionary \<open>{}\<close> is \<open>no_prompt\<close>.
\<close>

record prompt_def =
  name :: "string option"
  description :: "string option"
  system_prompt :: "string option"

definition no_prompt :: prompt_def where
  "no_prompt = \<lparr>name = None, description = None, system_prompt = None\<rparr>"

text \<open>
  Both \<open>prompts.json\<close> and the dictionary that \<open>load_prompts\<close> returns have the keys
  \<open>default_prompt\<close> and \<open>prompts\<close>, each read with \<open>.get\<close> and a default. The records
  cover the catalogs of the documented layout: a key is absent (\<open>None\<close>) or holds a value
  of its type, a string for \<open>default_prompt\<close>, \<open>name\<close>, \<open>description\<close> and
  \<open>system_prompt\<close>, an object of objects for \<open>prompts\<close>. A key that holds \<open>null\<close> or
  a value of another type is outside them.
\<close>

record prompts_data =
  default_prompt :: "string option"
  prompts :: "(string \<times> prompt_def) list option"

definition empty_data :: prompts_data where
  "empty_data = \<lparr>default_prompt = None, prompts = None\<rparr>"

text \<open>\<open>d.get("prompts", {})\<close> and \<open>d.get("default_prompt", "assistant")\<close>.\<close>

definition get_prompts :: "prompts_data \<Rightarrow> (string \<times> prompt_def) list" where
  "get_prompts d = (case prompts d of None \<Rightarrow> [] | Some p \<Rightarrow> p)"

definition get_default_prompt :: "prompts_data \<Rightarrow> string" where
  "get_default_prompt d = (case default_prompt d of None \<Rightarrow> ''assistant'' | Some k \<Rightarrow> k)"

text \<open>\<open>next(iter(prompts), "assistant")\<close>: the first key in insertion order.\<close>

definition first_key :: "(string \<times> prompt_def) list \<Rightarrow> string" where
  "first_key ps = (case ps of [] \<Rightarrow> ''assistant'' | (k, _) # _ \<Rightarrow> k)"

text \<open>
  \<open>_load_json(PROMPTS_JSON_PATH)\<close>: the argument is the content of \<open>prompts.json\<close>,
  \<open>None\<close> when it cannot be read, which gives the empty dictionary.
\<close>

definition load_prompts_json :: "prompts_data option \<Rightarrow> prompts_data" where
  "load_prompts_json doc = (case doc of None \<Rightarrow> empty_data | Some d \<Rightarrow> d)"

definition load_prompts :: "prompts_data option \<Rightarrow> prompts_data" where
  "load_prompts doc =
     (let data = load_prompts_json doc;
          ps = get_prompts data;
          dflt = get_default_prompt data;
          dflt = (if map_of ps dflt = None then first_key ps else dflt)
      in \<lparr>default_prompt = Some dflt, prompts = Some ps\<rparr>)"

text \<open>
  The fallback text of \<open>get_system_prompt\<close>, a Russian sentence of 23 characters ("You
  are a helpful assistant."). One list element stands for one character: each character
  is given by its code in the one-byte Cyrillic code page Windows-1251. No function looks
  inside the text.
\<close>

definition fallback_prompt :: string where
  "fallback_prompt =
     [CHR 0xD2, CHR 0xFB, CHR 0x20, CHR 0x97, CHR 0x20, CHR 0xEF, CHR 0xEE, CHR 0xEB,
      CHR 0xE5, CHR 0xE7, CHR 0xED, CHR 0xFB, CHR 0xE9, CHR 0x20, CHR 0xEF, CHR 0xEE,
      CHR 0xEC, CHR 0xEE, CHR 0xF9, CHR 0xED, CHR 0xE8, CHR 0xEA, CHR 0x2E]"

text \<open>
  \<open>mode_key or default\<close>: Python's \<open>or\<close> takes the right-hand side when the left one is
  \<open>None\<close> and also when it is the empty string.
\<close>

definition resolve_mode :: "prompts_data \<Rightarrow> string option \<Rightarrow> string" where
  "resolve_mode d mode_key =
     (case mode_key of
        None \<Rightarrow> get_default_prompt d
      | Some k \<Rightarrow> if k \<noteq> [] then k else get_default_prompt d)"

definition get_system_prompt :: "prompts_data \<Rightarrow> string option \<Rightarrow> string" where
  "get_system_prompt d mode_key =
     (let k = resolve_mode d mode_key;
          ps = get_prompts d;
          m = (case map_of ps k of
                 Some e \<Rightarrow> e
               | None \<Rightarrow> (case map_of ps ''assistant'' of Some e \<Rightarrow> e | None \<Rightarrow> no_prompt))
      in case system_prompt m of Some s \<Rightarrow> s | None \<Rightarrow> fallback_prompt)"

section \<open>memory.py: the chat memory\<close>

text \<open>
  The state of one chat, with the five keys that \<open>get_chat_state\<close> creates. The token
  counters are read with \<open>state.get(...) or 0\<close>, so they may be absent or null. The two
  message lists are taken to be present, as they are in every state the program writes:
  the appends index them with \<open>state["user_messages"]\<close>, and on a present key
  \<open>state.get("user_messages", [])\<close> is the same read.
\<close>

record chat_state =
  mode :: "string option"
  user_messages :: "string list"
  assistant_messages :: "string list"
  input_tokens :: "int option"
  output_tokens :: "int option"

type_synonym memory = "(string \<times> chat_state) list"

text \<open>
  The two places the memory lives in: the module variable \<open>_memory_cache\<close> and the file
  \<open>memory.json\<close> (\<open>None\<close> when it cannot be read).
\<close>

record world =
  memory_cache :: memory
  memory_file :: "memory option"

definition get_memory_data :: "world \<Rightarrow> memory \<times> world" where
  "get_memory_data w =
     (let w1 = (if memory_cache w = [] then w\<lparr>memory_cache := load_json (memory_file w)\<rparr> else w)
      in (memory_cache w1, w1))"

text \<open>
  \<open>_persist_memory\<close> overwrites the file with the whole cache. A write that fails raises
  in the source and nothing catches it; the model describes the runs in which the write
  succeeds.
\<close>

definition persist_memory :: "world \<Rightarrow> world" where
  "persist_memory w = w\<lparr>memory_file := Some (memory_cache w)\<rparr>"

definition default_state :: chat_state where
  "default_state =
     \<lparr>mode = None, user_messages = [], assistant_messages = [],
      input_tokens = Some 0, output_tokens = Some 0\<rparr>"

definition get_chat_state :: "int \<Rightarrow> world \<Rightarrow> chat_state \<times> world" where
  "get_chat_state chat_id w =
     (let key = chat_key chat_id;
          (data, w1) = get_memory_data w
      in case map_of data key of
           None \<Rightarrow> (default_state, w1\<lparr>memory_cache := AList.update key default_state data\<rparr>)
         | Some s \<Rightarrow> (s, w1))"

text \<open>
  The dictionary that \<open>get_chat_state\<close> returns is the one stored in the cache, so an
  assignment to one of its keys changes the cache entry. \<open>store_state\<close> is that write.
\<close>

definition store_state :: "int \<Rightarrow> chat_state \<Rightarrow> world \<Rightarrow> world" where
  "store_state chat_id s w =
     w\<lparr>memory_cache := AList.update (chat_key chat_id) s (memory_cache w)\<rparr>"

definition set_chat_mode :: "int \<Rightarrow> string \<Rightarrow> world \<Rightarrow> world" where
  "set_chat_mode chat_id mode_key w =
     (let (state, w1) = get_chat_state chat_id w
      in persist_memory (store_state chat_id (state\<lparr>mode := Some mode_key\<rparr>) w1))"

definition append_user_message :: "int \<Rightarrow> string \<Rightarrow> world \<Rightarrow> world" where
  "append_user_message chat_id text w =
     (let (state, w1) = get_chat_state chat_id w;
          appended = user_messages state @ [text];
          state = state\<lparr>user_messages := slice_from appended (- MAX_USER_MESSAGES)\<rparr>
      in persist_memory (store_state chat_id state w1))"

definition append_assistant_message :: "int \<Rightarrow> string \<Rightarrow> world \<Rightarrow> world" where
  "append_assistant_message chat_id text w =
     (let (state, w1) = get_chat_state chat_id w;
          appended = assistant_messages state @ [text];
          state = state\<lparr>assistant_messages := slice_from appended (- MAX_ASSISTANT_MESSAGES)\<rparr>
      in persist_memory (store_state chat_id state w1))"

record api_message =
  role :: string
  content :: string

text \<open>
  The loop \<open>for i in range(n)\<close> of \<open>get_messages_for_api\<close>, over the list of indices.
  Every index is below both lengths, so both reads are in range.
\<close>

fun pair_loop :: "string list \<Rightarrow> string list \<Rightarrow> nat list \<Rightarrow> api_message list \<Rightarrow> api_message list" where
  "pair_loop user_msgs assistant_msgs [] messages = messages"
| "pair_loop user_msgs assistant_msgs (i # is) messages =
     pair_loop user_msgs assistant_msgs is
       (messages @ [\<lparr>role = ''user'', content = user_msgs ! i\<rparr>,
                    \<lparr>role = ''assistant'', content = assistant_msgs ! i\<rparr>])"

text \<open>\<open>user_msgs[-1]\<close> is read only when \<open>user_msgs\<close> is longer than \<open>n\<close>, so not empty.\<close>

definition get_messages_for_api :: "int \<Rightarrow> string \<Rightarrow> world \<Rightarrow> api_message list \<times> world" where
  "get_messages_for_api chat_id prompt w =
     (let (state, w1) = get_chat_state chat_id w;
          messages = [\<lparr>role = ''system'', content = prompt\<rparr>];
          user_msgs = user_messages state;
          assistant_msgs = assistant_messages state;
          n = min (length user_msgs) (length assistant_msgs);
          messages = pair_loop user_msgs assistant_msgs [0..<n] messages;
          messages = (if length user_msgs > n
                      then messages @ [\<lparr>role = ''user'', content = last user_msgs\<rparr>]
                      else messages)
      in (messages, w1))"

definition reset_chat :: "int \<Rightarrow> world \<Rightarrow> world" where
  "reset_chat chat_id w =
     (let key = chat_key chat_id;
          (data, w1) = get_memory_data w
      in case map_of data key of
           None \<Rightarrow> w1
         | Some s \<Rightarrow>
             persist_memory
               (store_state chat_id (s\<lparr>user_messages := [], assistant_messages := []\<rparr>) w1))"

text \<open>\<open>x or 0\<close> for a counter that may be absent or null.\<close>

definition or_zero :: "int option \<Rightarrow> int" where
  "or_zero x = (case x of None \<Rightarrow> 0 | Some v \<Rightarrow> if v \<noteq> 0 then v else 0)"

definition get_chat_stats :: "int \<Rightarrow> world \<Rightarrow> (int \<times> int) \<times> world" where
  "get_chat_stats chat_id w =
     (let (state, w1) = get_chat_state chat_id w
      in ((or_zero (input_tokens state), or_zero (output_tokens state)), w1))"

definition add_tokens :: "int \<Rightarrow> int \<Rightarrow> int \<Rightarrow> world \<Rightarrow> world" where
  "add_tokens chat_id inp out w =
     (let (state, w1) = get_chat_state chat_id w;
          state = state\<lparr>input_tokens := Some (or_zero (input_tokens state) + inp)\<rparr>;
          state = state\<lparr>output_tokens := Some (or_zero (output_tokens state) + out)\<rparr>
      in persist_memory (store_state chat_id state w1))"

definition reset_chat_stats :: "int \<Rightarrow> world \<Rightarrow> world" where
  "reset_chat_stats chat_id w =
     (let (state, w1) = get_chat_state chat_id w
      in persist_memory (store_state chat_id (state\<lparr>input_tokens := Some 0, output_tokens := Some 0\<rparr>) w1))"

section \<open>memory.py: get_chat_state on any memory.json\<close>








section \<open>Notions used to state the properties\<close>

text \<open>The world of a fresh process with no \<open>memory.json\<close>.\<close>

definition fresh_world :: world where
  "fresh_world = \<lparr>memory_cache = [], memory_file = None\<rparr>"

text \<open>A sequence of appends, to any chats, run from left to right.\<close>

datatype append_op = AppendUser int string | AppendAssistant int string

fun apply_append :: "append_op \<Rightarrow> world \<Rightarrow> world" where
  "apply_append (AppendUser chat_id text) w = append_user_message chat_id text w"
| "apply_append (AppendAssistant chat_id text) w = append_assistant_message chat_id text w"

fun run_appends :: "append_op list \<Rightarrow> world \<Rightarrow> world" where
  "run_appends [] w = w"
| "run_appends (op # ops) w = run_appends ops (apply_append op w)"

text \<open>Both windows of every chat are within the limits, in the cache and in the file.\<close>

definition state_bounded :: "chat_state \<Rightarrow> bool" where
  "state_bounded s \<longleftrightarrow>
     int (length (user_messages s)) \<le> MAX_USER_MESSAGES \<and>
     int (length (assistant_messages s)) \<le> MAX_ASSISTANT_MESSAGES"

definition memory_bounded :: "memory \<Rightarrow> bool" where
  "memory_bounded m \<longleftrightarrow> list_all (\<lambda>(k, s). state_bounded s) m"

definition world_bounded :: "world \<Rightarrow> bool" where
  "world_bounded w \<longleftrightarrow>
     memory_bounded (memory_cache w) \<and> memory_bounded (load_json (memory_file w))"


section \<open>Properties of split_message\<close>


lemma rfind_lower: "- 1 \<le> rfind xs c"
  by (induction xs) (auto simp: Let_def)

lemma rfind_upper: "rfind xs c < int (length xs)"
  by (induction xs) (auto simp: Let_def)

lemma rfind_absent: "c \<notin> set xs \<Longrightarrow> rfind xs c = - 1"
  by (induction xs) (auto simp: Let_def)

lemma cut_point_range:
  assumes "1 \<le> max_length" and "max_length < int (length rest)"
  shows "1 \<le> cut_point rest max_length \<and> cut_point rest max_length \<le> max_length"
proof -
  let ?block = "slice_to rest max_length"
  have len: "int (length ?block) = max_length"
    using assms by (simp add: slice_to_def)
  have up: "rfind ?block newline < max_length"
    using rfind_upper [of ?block newline] len by simp
  have "0 \<le> max_length div 2" using assms by simp
  then show ?thesis
    using assms up by (auto simp: cut_point_def Let_def)
qed

lemma cut_point_no_newline:
  "newline \<notin> set rest \<Longrightarrow> 0 \<le> max_length \<Longrightarrow> cut_point rest max_length = max_length"
proof -
  assume a: "newline \<notin> set rest" and b: "0 \<le> max_length"
  have "newline \<notin> set (slice_to rest max_length)"
    using a b by (auto simp: slice_to_def dest: in_set_takeD)
  then have "rfind (slice_to rest max_length) newline = - 1" by (rule rfind_absent)
  moreover have "\<not> - 1 > max_length div 2" using b by simp
  ultimately show ?thesis by (simp only: cut_point_def Let_def if_False)
qed

lemma next_chunk_length:
  assumes "1 \<le> max_length" and "max_length < int (length rest)"
  shows "next_chunk rest max_length \<noteq> [] \<and> int (length (next_chunk rest max_length)) \<le> max_length"
  using cut_point_range [OF assms] assms
  by (auto simp: next_chunk_def slice_to_def)

lemma length_lstrip_newline: "length (lstrip_newline s) \<le> length s"
  by (simp add: lstrip_newline_def length_dropWhile_le)

lemma next_rest_shorter:
  assumes "1 \<le> max_length" and "max_length < int (length rest)"
  shows "length (next_rest rest max_length) < length rest"
proof -
  have "length (slice_from rest (cut_point rest max_length)) < length rest"
    using cut_point_range [OF assms] assms by (auto simp: slice_from_def)
  then show ?thesis
    using length_lstrip_newline [of "slice_from rest (cut_point rest max_length)"]
    by (simp add: next_rest_def)
qed

lemma filter_lstrip_newline:
  "filter (\<lambda>c. c \<noteq> newline) (lstrip_newline s) = filter (\<lambda>c. c \<noteq> newline) s"
  by (induction s) (auto simp: lstrip_newline_def)

lemma chunk_rest_content:
  assumes "1 \<le> max_length" and "max_length < int (length rest)"
  shows "filter (\<lambda>c. c \<noteq> newline) (next_chunk rest max_length) @
         filter (\<lambda>c. c \<noteq> newline) (next_rest rest max_length) =
         filter (\<lambda>c. c \<noteq> newline) rest"
proof -
  let ?k = "nat (cut_point rest max_length)"
  have c: "0 \<le> cut_point rest max_length" using cut_point_range [OF assms] by simp
  have "filter (\<lambda>c. c \<noteq> newline) (take ?k rest) @ filter (\<lambda>c. c \<noteq> newline) (drop ?k rest)
        = filter (\<lambda>c. c \<noteq> newline) (take ?k rest @ drop ?k rest)"
    by (simp only: filter_append)
  then show ?thesis
    using c by (simp add: next_chunk_def next_rest_def slice_to_def slice_from_def filter_lstrip_newline)
qed

lemma split_loop_result:
  assumes "1 \<le> max_length"
  shows "\<exists>ps. split_loop rest max_length chunks = Some (chunks @ ps) \<and>
              (\<forall>p \<in> set ps. p \<noteq> [] \<and> int (length p) \<le> max_length) \<and>
              filter (\<lambda>c. c \<noteq> newline) (concat ps) = filter (\<lambda>c. c \<noteq> newline) rest"
proof (induction "length rest" arbitrary: rest chunks rule: less_induct)
  case less
  show ?case
  proof (cases "rest = []")
    case True
    then show ?thesis by (simp add: split_loop.simps)
  next
    case False
    note ne = this
    show ?thesis
    proof (cases "int (length rest) \<le> max_length")
      case True
      have "split_loop rest max_length chunks = Some (chunks @ [rest])"
        using ne True by (subst split_loop.simps) simp
      then show ?thesis using ne True by simp
    next
      case False
      then have big: "max_length < int (length rest)" by simp
      let ?r = "next_rest rest max_length" and ?c = "next_chunk rest max_length"
      have "length ?r < length rest" by (rule next_rest_shorter [OF assms big])
      from less [OF this, of "chunks @ [?c]"]
      obtain ps where ps: "split_loop ?r max_length (chunks @ [?c]) = Some ((chunks @ [?c]) @ ps)"
        and bound: "\<forall>p \<in> set ps. p \<noteq> [] \<and> int (length p) \<le> max_length"
        and content: "filter (\<lambda>c. c \<noteq> newline) (concat ps) = filter (\<lambda>c. c \<noteq> newline) ?r"
        by blast
      have unfold: "split_loop rest max_length chunks = split_loop ?r max_length (chunks @ [?c])"
        using ne False by (subst split_loop.simps) simp
      have "split_loop rest max_length chunks = Some (chunks @ (?c # ps))"
        using unfold ps by simp
      moreover have "\<forall>p \<in> set (?c # ps). p \<noteq> [] \<and> int (length p) \<le> max_length"
        using bound next_chunk_length [OF assms big] by simp
      moreover have "filter (\<lambda>c. c \<noteq> newline) (concat (?c # ps)) = filter (\<lambda>c. c \<noteq> newline) rest"
        using content chunk_rest_content [OF assms big] by simp
      ultimately show ?thesis by blast
    qed
  qed
qed

lemma stuck_step:
  assumes "max_length \<le> 0"
  shows "next_rest ''a'' max_length = ''a''"
proof -
  have b: "slice_to ''a'' max_length = []"
    using assms by (auto simp: slice_to_def)
  have "cut_point ''a'' max_length \<le> 0"
    using assms by (simp add: cut_point_def b Let_def)
  then have "slice_from ''a'' (cut_point ''a'' max_length) = ''a''"
    by (auto simp: slice_from_def)
  then show ?thesis by (simp add: next_rest_def lstrip_newline_def newline_def)
qed

lemma split_loop_not_stuck:
  assumes "split_loop rest m cs = Some y"
  shows "\<not> (rest = ''a'' \<and> m \<le> 0)"
proof (rule split_loop.raw_induct [where P = "\<lambda>rest m cs y. \<not> (rest = ''a'' \<and> m \<le> 0)", OF _ assms])
  fix sl :: "string \<Rightarrow> int \<Rightarrow> string list \<Rightarrow> string list option"
  fix rest m cs y
  assume ih: "\<And>rest m cs y. sl rest m cs = Some y \<Longrightarrow> \<not> (rest = ''a'' \<and> m \<le> 0)"
  assume step: "(if rest = [] then Some cs
      else if int (length rest) \<le> m then Some (cs @ [rest])
      else sl (next_rest rest m) m (cs @ [next_chunk rest m])) = Some y"
  show "\<not> (rest = ''a'' \<and> m \<le> 0)"
  proof
    assume a: "rest = ''a'' \<and> m \<le> 0"
    then have "sl (next_rest rest m) m (cs @ [next_chunk rest m]) = Some y"
      using step by (simp split: if_splits)
    then have "\<not> (next_rest rest m = ''a'' \<and> m \<le> 0)" by (rule ih)
    then show False using a stuck_step [of m] by simp
  qed
qed

lemma split_loop_diverges:
  assumes "max_length \<le> 0"
  shows "split_loop ''a'' max_length chunks = None"
proof (cases "split_loop ''a'' max_length chunks")
  case None
  then show ?thesis .
next
  case (Some y)
  then show ?thesis using split_loop_not_stuck [OF Some] assms by simp
qed


lemma lstrip_no_newline: "newline \<notin> set s \<Longrightarrow> lstrip_newline s = s"
  by (cases s) (auto simp: lstrip_newline_def)

lemma split_loop_hard_cut:
  assumes "newline \<notin> set rest" and "0 \<le> max_length" and "max_length < int (length rest)"
  shows "split_loop rest max_length chunks =
         split_loop (drop (nat max_length) rest) max_length (chunks @ [take (nat max_length) rest])"
proof -
  have cut: "cut_point rest max_length = max_length"
    using assms(1,2) by (rule cut_point_no_newline)
  have "newline \<notin> set (drop (nat max_length) rest)"
    using assms(1) by (auto dest: in_set_dropD)
  then have r: "next_rest rest max_length = drop (nat max_length) rest"
    using assms(2) by (simp add: next_rest_def cut slice_from_def lstrip_no_newline)
  have c: "next_chunk rest max_length = take (nat max_length) rest"
    using assms(2) by (simp add: next_chunk_def cut slice_to_def)
  have "rest \<noteq> []" using assms(2,3) by auto
  then show ?thesis
    using assms(3) by (subst split_loop.simps) (simp add: r c)
qed

lemma split_loop_last:
  assumes "rest \<noteq> []" and "int (length rest) \<le> max_length"
  shows "split_loop rest max_length chunks = Some (chunks @ [rest])"
  using assms by (subst split_loop.simps) simp

lemma split_9000:
  assumes len: "length text = 9000" and nl: "newline \<notin> set text"
  shows "split_message text 4096 =
         Some [take 4096 text, take 4096 (drop 4096 text), drop 8192 text]"
proof -
  have s0: "split_message text 4096 = split_loop text 4096 []"
    using len by (simp add: split_message_def)
  have s1: "split_loop text 4096 [] = split_loop (drop 4096 text) 4096 [take 4096 text]"
    using split_loop_hard_cut [OF nl, of 4096 "[]"] len by simp
  have nl1: "newline \<notin> set (drop 4096 text)"
    using nl by (auto dest: in_set_dropD)
  have s2: "split_loop (drop 4096 text) 4096 [take 4096 text] =
            split_loop (drop 8192 text) 4096 [take 4096 text, take 4096 (drop 4096 text)]"
    using split_loop_hard_cut [OF nl1, of 4096 "[take 4096 text]"] len by simp
  have s3: "split_loop (drop 8192 text) 4096 [take 4096 text, take 4096 (drop 4096 text)] =
            Some [take 4096 text, take 4096 (drop 4096 text), drop 8192 text]"
    using split_loop_last [of "drop 8192 text" 4096 "[take 4096 text, take 4096 (drop 4096 text)]"] len
    by auto
  show ?thesis by (simp only: s0 s1 s2 s3)
qed

text \<open>
  C10. For every text, \<open>split_message\<close> returns when \<open>max_length\<close> is at least 1: each
  iteration of the loop leaves a strictly shorter remaining text. The bound is needed:
  for every \<open>max_length\<close> below 1 the call on the one-character text \<open>a\<close> never returns.
\<close>

theorem split_message_terminates:
  "(1 \<le> max_length \<longrightarrow> (\<exists>ps. split_message text max_length = Some ps)) \<and>
   (1 \<le> max_length \<and> max_length < int (length rest) \<longrightarrow>
      length (next_rest rest max_length) < length rest) \<and>
   (m \<le> 0 \<longrightarrow> split_message ''a'' m = None)"
proof (intro conjI impI)
  assume pos: "1 \<le> max_length"
  show "\<exists>ps. split_message text max_length = Some ps"
  proof (cases "int (length text) \<le> max_length")
    case True
    then show ?thesis by (simp add: split_message_def)
  next
    case False
    obtain ps where "split_loop text max_length [] = Some ([] @ ps)"
      using split_loop_result [OF pos, of "text" "[]"] by blast
    then show ?thesis using False by (simp add: split_message_def)
  qed
next
  assume "1 \<le> max_length \<and> max_length < int (length rest)"
  then show "length (next_rest rest max_length) < length rest"
    by (simp add: next_rest_shorter)
next
  assume "m \<le> 0"
  then show "split_message ''a'' m = None"
    by (simp add: split_message_def split_loop_diverges)
qed

theorem split_message_terminates_witness:
  "(\<exists>ps. split_message ''hello world'' 4 = Some ps) \<and>
   length (next_rest ''hello world'' 4) < length ''hello world'' \<and>
   split_message ''a'' 0 = None"
  using split_message_terminates [of 4 "''hello world''" "''hello world''" 0]
  by simp


















text \<open>
  C4, as amended. A text of 9000 characters with no line feed is split at 4096 into three
  pieces, of 4096, 4096 and 808 characters, which are the text cut at 4096 and at 8192.
\<close>

theorem split_message_9000_three_pieces:
  "length text = 9000 \<and> newline \<notin> set text \<longrightarrow>
   split_message text 4096 =
     Some [take 4096 text, take 4096 (drop 4096 text), drop 8192 text] \<and>
   map length [take 4096 text, take 4096 (drop 4096 text), drop 8192 text] = [4096, 4096, 808]"
proof
  assume a: "length text = 9000 \<and> newline \<notin> set text"
  then have "split_message text 4096 =
     Some [take 4096 text, take 4096 (drop 4096 text), drop 8192 text]"
    by (simp add: split_9000)
  then show "split_message text 4096 =
     Some [take 4096 text, take 4096 (drop 4096 text), drop 8192 text] \<and>
   map length [take 4096 text, take 4096 (drop 4096 text), drop 8192 text] = [4096, 4096, 808]"
    using a by simp
qed

theorem split_message_9000_three_pieces_witness:
  "split_message (replicate 9000 (CHR ''b'')) 4096 =
     Some [replicate 4096 (CHR ''b''), replicate 4096 (CHR ''b''), replicate 808 (CHR ''b'')]"
  using split_message_9000_three_pieces [of "replicate 9000 (CHR ''b'')"]
  by (simp add: newline_def)

text \<open>
  C4 as stated fails: 9000 times the letter \<open>a\<close> gives three pieces, not two, and no piece
  of 4904 characters, which would be over the limit of 4096.
\<close>

theorem split_message_9000_counterexample:
  "split_message (replicate 9000 (CHR ''a'')) 4096 =
     Some [replicate 4096 (CHR ''a''), replicate 4096 (CHR ''a''), replicate 808 (CHR ''a'')] \<and>
   map length (the (split_message (replicate 9000 (CHR ''a'')) 4096)) \<noteq> [4096, 4904]"
proof -
  have "length (replicate 9000 (CHR ''a'')) = 9000" by simp
  moreover have "newline \<notin> set (replicate 9000 (CHR ''a''))" by (simp add: newline_def)
  ultimately have "split_message (replicate 9000 (CHR ''a'')) 4096 =
     Some [take 4096 (replicate 9000 (CHR ''a'')),
           take 4096 (drop 4096 (replicate 9000 (CHR ''a''))),
           drop 8192 (replicate 9000 (CHR ''a''))]"
    by (rule split_9000)
  then show ?thesis by simp
qed

section \<open>Properties of the chat memory\<close>

lemma map_of_update_same: "map_of (AList.update k v al) k = Some v"
  by (simp add: update_conv')


lemma get_chat_state_entry:
  "map_of (memory_cache (snd (get_chat_state c w))) (chat_key c) = Some (fst (get_chat_state c w))"
  by (simp add: get_chat_state_def get_memory_data_def Let_def map_of_update_same split: option.splits)

lemma get_chat_state_cache_not_Nil: "memory_cache (snd (get_chat_state c w)) \<noteq> []"
  using get_chat_state_entry [of c w] by auto

lemma get_chat_state_written:
  "get_chat_state c (persist_memory (store_state c s w)) = (s, persist_memory (store_state c s w))"
  by (simp add: get_chat_state_def get_memory_data_def persist_memory_def store_state_def
        Let_def map_of_update_same)

lemma pair_loop_closed:
  "pair_loop u a idx acc =
     acc @ concat (map (\<lambda>i. [\<lparr>role = ''user'', content = u ! i\<rparr>,
                              \<lparr>role = ''assistant'', content = a ! i\<rparr>]) idx)"
  by (induction idx arbitrary: acc) simp_all

text \<open>
  C1. \<open>get_messages_for_api\<close> returns the system entry with the given prompt, then, for
  \<open>n\<close> the smaller of the two window lengths, the pairs of the \<open>i\<close>-th user message and
  the \<open>i\<close>-th assistant message for \<open>i\<close> from 0 to \<open>n - 1\<close> in order, then one more user
  entry with the last user message exactly when the user window is longer than \<open>n\<close>.
\<close>

theorem get_messages_for_api_shape:
  "fst (get_messages_for_api c prompt w) =
     (let st = fst (get_chat_state c w);
          u = user_messages st;
          a = assistant_messages st;
          n = min (length u) (length a)
      in \<lparr>role = ''system'', content = prompt\<rparr> #
         concat (map (\<lambda>i. [\<lparr>role = ''user'', content = u ! i\<rparr>,
                             \<lparr>role = ''assistant'', content = a ! i\<rparr>]) [0..<n]) @
         (if n < length u then [\<lparr>role = ''user'', content = last u\<rparr>] else []))"
  by (simp add: get_messages_for_api_def Let_def pair_loop_closed split: prod.splits)


theorem get_messages_for_api_shape_witness:
  "fst (get_messages_for_api 1 ''S''
         \<lparr>memory_cache = [(chat_key 1, default_state\<lparr>user_messages := [''a'', ''b''],
                                                     assistant_messages := [''x'']\<rparr>)],
          memory_file = None\<rparr>) =
     [\<lparr>role = ''system'', content = ''S''\<rparr>, \<lparr>role = ''user'', content = ''a''\<rparr>,
      \<lparr>role = ''assistant'', content = ''x''\<rparr>, \<lparr>role = ''user'', content = ''b''\<rparr>]"
  using get_messages_for_api_shape [of 1 "''S''"
         "\<lparr>memory_cache = [(chat_key 1, default_state\<lparr>user_messages := [''a'', ''b''],
                                                     assistant_messages := [''x'']\<rparr>)],
          memory_file = None\<rparr>"]
  by (simp add: get_chat_state_def get_memory_data_def Let_def default_state_def)

lemma slice_from_last:
  assumes "0 < k"
  shows "slice_from xs (- k) = drop (length xs - nat k) xs"
proof -
  have "nat (int (length xs) + - k) = length xs - nat k"
    using assms by arith
  then show ?thesis using assms by (simp add: slice_from_def)
qed

lemma length_slice_from_last:
  "0 < k \<Longrightarrow> int (length (slice_from xs (- k))) \<le> k"
  by (simp add: slice_from_last)

lemma append_user_message_view:
  "fst (get_chat_state c (append_user_message c t w)) =
     (fst (get_chat_state c w))
       \<lparr>user_messages := slice_from (user_messages (fst (get_chat_state c w)) @ [t]) (- MAX_USER_MESSAGES)\<rparr>"
  by (simp add: append_user_message_def Let_def get_chat_state_written split: prod.splits)

lemma append_assistant_message_view:
  "fst (get_chat_state c (append_assistant_message c t w)) =
     (fst (get_chat_state c w))
       \<lparr>assistant_messages := slice_from (assistant_messages (fst (get_chat_state c w)) @ [t]) (- MAX_ASSISTANT_MESSAGES)\<rparr>"
  by (simp add: append_assistant_message_def Let_def get_chat_state_written split: prod.splits)

lemma memory_bounded_update:
  "memory_bounded m \<Longrightarrow> state_bounded s \<Longrightarrow> memory_bounded (AList.update k s m)"
  by (induction m) (auto simp: memory_bounded_def)

lemma memory_bounded_lookup:
  "memory_bounded m \<Longrightarrow> map_of m k = Some s \<Longrightarrow> state_bounded s"
  by (induction m) (auto simp: memory_bounded_def split: if_splits)

lemma state_bounded_default: "state_bounded default_state"
  by (simp add: state_bounded_def default_state_def MAX_USER_MESSAGES_def MAX_ASSISTANT_MESSAGES_def)

lemma get_chat_state_bounded:
  assumes "world_bounded w"
  shows "state_bounded (fst (get_chat_state c w)) \<and> world_bounded (snd (get_chat_state c w))"
proof -
  have d: "memory_bounded (fst (get_memory_data w))"
    using assms by (auto simp: world_bounded_def get_memory_data_def Let_def)
  have f: "memory_bounded (load_json (memory_file w))"
    using assms by (simp add: world_bounded_def)
  show ?thesis
  proof (cases "map_of (fst (get_memory_data w)) (chat_key c)")
    case None
    then show ?thesis
      using d f
      by (simp add: get_chat_state_def Let_def world_bounded_def state_bounded_default
            memory_bounded_update get_memory_data_def split: prod.splits)
  next
    case (Some s)
    then show ?thesis
      using d f memory_bounded_lookup [OF d Some]
      by (simp add: get_chat_state_def Let_def world_bounded_def get_memory_data_def
            split: prod.splits)
  qed
qed

lemma write_bounded:
  assumes "world_bounded w" and "state_bounded s"
  shows "world_bounded (persist_memory (store_state c s w))"
  using assms
  by (simp add: world_bounded_def persist_memory_def store_state_def load_json_def
        memory_bounded_update)

lemma append_user_message_bounded:
  assumes "world_bounded w"
  shows "world_bounded (append_user_message c t w)"
proof -
  obtain s w1 where g: "get_chat_state c w = (s, w1)" by (cases "get_chat_state c w")
  have b: "state_bounded s \<and> world_bounded w1"
    using get_chat_state_bounded [OF assms, of c] g by simp
  have "state_bounded (s\<lparr>user_messages := slice_from (user_messages s @ [t]) (- MAX_USER_MESSAGES)\<rparr>)"
    using b length_slice_from_last [of MAX_USER_MESSAGES "user_messages s @ [t]"]
    by (simp add: state_bounded_def MAX_USER_MESSAGES_def)
  then show ?thesis
    using b g by (simp add: append_user_message_def Let_def write_bounded)
qed

lemma append_assistant_message_bounded:
  assumes "world_bounded w"
  shows "world_bounded (append_assistant_message c t w)"
proof -
  obtain s w1 where g: "get_chat_state c w = (s, w1)" by (cases "get_chat_state c w")
  have b: "state_bounded s \<and> world_bounded w1"
    using get_chat_state_bounded [OF assms, of c] g by simp
  have "state_bounded (s\<lparr>assistant_messages := slice_from (assistant_messages s @ [t]) (- MAX_ASSISTANT_MESSAGES)\<rparr>)"
    using b length_slice_from_last [of MAX_ASSISTANT_MESSAGES "assistant_messages s @ [t]"]
    by (simp add: state_bounded_def MAX_ASSISTANT_MESSAGES_def)
  then show ?thesis
    using b g by (simp add: append_assistant_message_def Let_def write_bounded)
qed

lemma run_appends_bounded:
  "world_bounded w \<Longrightarrow> world_bounded (run_appends ops w)"
proof (induction ops arbitrary: w)
  case Nil
  then show ?case by simp
next
  case (Cons op ops)
  have "world_bounded (apply_append op w)"
    using Cons.prems
    by (cases op) (simp_all add: append_user_message_bounded append_assistant_message_bounded)
  then show ?case using Cons.IH by simp
qed

lemma fresh_world_bounded: "world_bounded fresh_world"
  by (simp add: world_bounded_def fresh_world_def memory_bounded_def load_json_def)


text \<open>
  C2. From a world whose windows are all within the limits, and so from the fresh world,
  any sequence of appends leaves both windows of every chat within the limits of 10.
  One append puts the new text at the end of its window and keeps the last 10 entries
  of the result in their order, dropping the oldest ones; it leaves the other window of
  the chat as it was, and its own window ends within the limit whatever it held before.
\<close>

theorem appends_bounded_fifo:
  "(world_bounded w \<longrightarrow> state_bounded (fst (get_chat_state c (run_appends ops w)))) \<and>
   state_bounded (fst (get_chat_state c (run_appends ops fresh_world))) \<and>
   fst (get_chat_state c (append_user_message c t w)) =
     (let old = fst (get_chat_state c w)
      in old\<lparr>user_messages :=
               drop (length (user_messages old @ [t]) - 10) (user_messages old @ [t])\<rparr>) \<and>
   fst (get_chat_state c (append_assistant_message c t w)) =
     (let old = fst (get_chat_state c w)
      in old\<lparr>assistant_messages :=
               drop (length (assistant_messages old @ [t]) - 10) (assistant_messages old @ [t])\<rparr>) \<and>
   length (user_messages (fst (get_chat_state c (append_user_message c t w)))) \<le> 10 \<and>
   length (assistant_messages (fst (get_chat_state c (append_assistant_message c t w)))) \<le> 10"
proof (intro conjI impI)
  assume "world_bounded w"
  then have "world_bounded (run_appends ops w)" by (rule run_appends_bounded)
  then show "state_bounded (fst (get_chat_state c (run_appends ops w)))"
    by (simp add: get_chat_state_bounded)
next
  have "world_bounded (run_appends ops fresh_world)"
    using fresh_world_bounded by (rule run_appends_bounded)
  then show "state_bounded (fst (get_chat_state c (run_appends ops fresh_world)))"
    by (simp add: get_chat_state_bounded)
next
  show "fst (get_chat_state c (append_user_message c t w)) =
     (let old = fst (get_chat_state c w)
      in old\<lparr>user_messages :=
               drop (length (user_messages old @ [t]) - 10) (user_messages old @ [t])\<rparr>)"
    by (simp add: append_user_message_view slice_from_last MAX_USER_MESSAGES_def Let_def)
next
  show "fst (get_chat_state c (append_assistant_message c t w)) =
     (let old = fst (get_chat_state c w)
      in old\<lparr>assistant_messages :=
               drop (length (assistant_messages old @ [t]) - 10) (assistant_messages old @ [t])\<rparr>)"
    by (simp add: append_assistant_message_view slice_from_last MAX_ASSISTANT_MESSAGES_def Let_def)
next
  show "length (user_messages (fst (get_chat_state c (append_user_message c t w)))) \<le> 10"
    by (simp add: append_user_message_view slice_from_last MAX_USER_MESSAGES_def)
next
  show "length (assistant_messages (fst (get_chat_state c (append_assistant_message c t w)))) \<le> 10"
    by (simp add: append_assistant_message_view slice_from_last MAX_ASSISTANT_MESSAGES_def)
qed


theorem appends_bounded_fifo_witness:
  "world_bounded
     \<lparr>memory_cache = [(chat_key 5, default_state\<lparr>user_messages :=
        [''m0'', ''m1'', ''m2'', ''m3'', ''m4'', ''m5'', ''m6'', ''m7'', ''m8'', ''m9'']\<rparr>)],
      memory_file = None\<rparr> \<and>
   state_bounded (fst (get_chat_state 5 (run_appends [AppendUser 5 ''a'', AppendAssistant 5 ''b'']
     \<lparr>memory_cache = [(chat_key 5, default_state\<lparr>user_messages :=
        [''m0'', ''m1'', ''m2'', ''m3'', ''m4'', ''m5'', ''m6'', ''m7'', ''m8'', ''m9'']\<rparr>)],
      memory_file = None\<rparr>))) \<and>
   user_messages (fst (get_chat_state 5 (append_user_message 5 ''new''
     \<lparr>memory_cache = [(chat_key 5, default_state\<lparr>user_messages :=
        [''m0'', ''m1'', ''m2'', ''m3'', ''m4'', ''m5'', ''m6'', ''m7'', ''m8'', ''m9'']\<rparr>)],
      memory_file = None\<rparr>))) =
     [''m1'', ''m2'', ''m3'', ''m4'', ''m5'', ''m6'', ''m7'', ''m8'', ''m9'', ''new'']"
  using appends_bounded_fifo [of
     "\<lparr>memory_cache = [(chat_key 5, default_state\<lparr>user_messages :=
        [''m0'', ''m1'', ''m2'', ''m3'', ''m4'', ''m5'', ''m6'', ''m7'', ''m8'', ''m9'']\<rparr>)],
      memory_file = None\<rparr>" 5 "[AppendUser 5 ''a'', AppendAssistant 5 ''b'']" "''new''"]
  by (simp add: world_bounded_def memory_bounded_def state_bounded_def load_json_def
        default_state_def MAX_USER_MESSAGES_def MAX_ASSISTANT_MESSAGES_def
        get_chat_state_def get_memory_data_def Let_def)





lemma get_chat_state_present:
  "map_of (fst (get_memory_data w)) (chat_key c) = Some s \<Longrightarrow>
   get_chat_state c w = (s, snd (get_memory_data w))"
  by (simp add: get_chat_state_def Let_def case_prod_beta)

lemma get_chat_stats_view:
  "fst (get_chat_stats c w) =
     (or_zero (input_tokens (fst (get_chat_state c w))),
      or_zero (output_tokens (fst (get_chat_state c w))))"
  by (simp add: get_chat_stats_def Let_def split: prod.splits)

lemma reset_chat_view:
  assumes "map_of (fst (get_memory_data w)) (chat_key c) = Some s"
  shows "reset_chat c w =
           persist_memory (store_state c (s\<lparr>user_messages := [], assistant_messages := []\<rparr>)
             (snd (get_memory_data w)))"
  using assms by (simp add: reset_chat_def Let_def case_prod_beta)

text \<open>
  C6. For a chat that is in the store, with state \<open>s\<close>, after \<open>reset_chat\<close> its state is
  \<open>s\<close> with both windows empty: the mode and both token counters are those of \<open>s\<close>, so
  \<open>get_chat_stats\<close> returns the same pair as before. The memory has been saved to the file.
\<close>

theorem reset_chat_clears_history:
  "map_of (fst (get_memory_data w)) (chat_key c) = Some s \<longrightarrow>
     fst (get_chat_state c (reset_chat c w)) = s\<lparr>user_messages := [], assistant_messages := []\<rparr> \<and>
     user_messages (fst (get_chat_state c (reset_chat c w))) = [] \<and>
     assistant_messages (fst (get_chat_state c (reset_chat c w))) = [] \<and>
     mode (fst (get_chat_state c (reset_chat c w))) = mode s \<and>
     input_tokens (fst (get_chat_state c (reset_chat c w))) = input_tokens s \<and>
     output_tokens (fst (get_chat_state c (reset_chat c w))) = output_tokens s \<and>
     fst (get_chat_stats c (reset_chat c w)) = fst (get_chat_stats c w) \<and>
     memory_file (reset_chat c w) = Some (memory_cache (reset_chat c w))"
proof
  assume a: "map_of (fst (get_memory_data w)) (chat_key c) = Some s"
  have v: "fst (get_chat_state c (reset_chat c w)) = s\<lparr>user_messages := [], assistant_messages := []\<rparr>"
    by (simp add: reset_chat_view [OF a] get_chat_state_written)
  have b: "fst (get_chat_state c w) = s"
    by (simp add: get_chat_state_present [OF a])
  have f: "memory_file (reset_chat c w) = Some (memory_cache (reset_chat c w))"
    by (simp add: reset_chat_view [OF a] persist_memory_def)
  show "fst (get_chat_state c (reset_chat c w)) = s\<lparr>user_messages := [], assistant_messages := []\<rparr> \<and>
     user_messages (fst (get_chat_state c (reset_chat c w))) = [] \<and>
     assistant_messages (fst (get_chat_state c (reset_chat c w))) = [] \<and>
     mode (fst (get_chat_state c (reset_chat c w))) = mode s \<and>
     input_tokens (fst (get_chat_state c (reset_chat c w))) = input_tokens s \<and>
     output_tokens (fst (get_chat_state c (reset_chat c w))) = output_tokens s \<and>
     fst (get_chat_stats c (reset_chat c w)) = fst (get_chat_stats c w) \<and>
     memory_file (reset_chat c w) = Some (memory_cache (reset_chat c w))"
    using f by (simp add: v b get_chat_stats_view)
qed

theorem reset_chat_clears_history_witness:
  "fst (get_chat_state 3 (reset_chat 3
     \<lparr>memory_cache = [(chat_key 3, \<lparr>mode = Some ''dev'', user_messages = [''q1'', ''q2''],
                                     assistant_messages = [''r1''], input_tokens = Some 12,
                                     output_tokens = Some 34\<rparr>)],
      memory_file = None\<rparr>)) =
     \<lparr>mode = Some ''dev'', user_messages = [], assistant_messages = [],
      input_tokens = Some 12, output_tokens = Some 34\<rparr> \<and>
   fst (get_chat_stats 3 (reset_chat 3
     \<lparr>memory_cache = [(chat_key 3, \<lparr>mode = Some ''dev'', user_messages = [''q1'', ''q2''],
                                     assistant_messages = [''r1''], input_tokens = Some 12,
                                     output_tokens = Some 34\<rparr>)],
      memory_file = None\<rparr>)) = (12, 34)"
  using reset_chat_clears_history [of
     "\<lparr>memory_cache = [(chat_key 3, \<lparr>mode = Some ''dev'', user_messages = [''q1'', ''q2''],
                                     assistant_messages = [''r1''], input_tokens = Some 12,
                                     output_tokens = Some 34\<rparr>)],
      memory_file = None\<rparr>" 3
     "\<lparr>mode = Some ''dev'', user_messages = [''q1'', ''q2''],
       assistant_messages = [''r1''], input_tokens = Some 12, output_tokens = Some 34\<rparr>"]
  by (simp add: get_memory_data_def Let_def get_chat_stats_def get_chat_state_def or_zero_def)

lemma or_zero_Some: "or_zero (Some v) = v"
  by (simp add: or_zero_def)

lemma add_tokens_view:
  "fst (get_chat_state c (add_tokens c inp out w)) =
     (fst (get_chat_state c w))
       \<lparr>input_tokens := Some (or_zero (input_tokens (fst (get_chat_state c w))) + inp),
        output_tokens := Some (or_zero (output_tokens (fst (get_chat_state c w))) + out)\<rparr>"
  by (simp add: add_tokens_def Let_def get_chat_state_written split: prod.splits)

lemma add_tokens_stats:
  "fst (get_chat_stats c (add_tokens c inp out w)) =
     (fst (fst (get_chat_stats c w)) + inp, snd (fst (get_chat_stats c w)) + out)"
  by (simp add: get_chat_stats_view add_tokens_view or_zero_Some)

text \<open>
  C9. Two calls of \<open>add_tokens\<close> for one chat give the same counters in either order:
  the counters before, plus the sum of the two deltas, component by component. This holds
  for all deltas, not only for those that are not negative.
\<close>

theorem add_tokens_commute:
  "fst (get_chat_stats c (add_tokens c i2 o2 (add_tokens c i1 o1 w))) =
     (fst (fst (get_chat_stats c w)) + (i1 + i2), snd (fst (get_chat_stats c w)) + (o1 + o2)) \<and>
   fst (get_chat_stats c (add_tokens c i2 o2 (add_tokens c i1 o1 w))) =
   fst (get_chat_stats c (add_tokens c i1 o1 (add_tokens c i2 o2 w)))"
  by (simp add: add_tokens_stats)

theorem add_tokens_commute_witness:
  "fst (get_chat_stats 1 (add_tokens 1 2 0 (add_tokens 1 3 5 fresh_world))) = (5, 5) \<and>
   fst (get_chat_stats 1 (add_tokens 1 3 5 (add_tokens 1 2 0 fresh_world))) = (5, 5)"
proof -
  have z: "fst (get_chat_stats 1 fresh_world) = (0, 0)"
    by (simp add: get_chat_stats_def get_chat_state_def get_memory_data_def fresh_world_def
          load_json_def Let_def default_state_def or_zero_def)
  show ?thesis
    using add_tokens_commute [of 1 2 0 3 5 fresh_world] by (auto simp: z)
qed

section \<open>Properties of the prompts\<close>

lemma first_key_member: "ps \<noteq> [] \<Longrightarrow> first_key ps \<in> fst ` set ps"
  by (cases ps) (auto simp: first_key_def)

lemma first_key_hd: "ps \<noteq> [] \<Longrightarrow> first_key ps = fst (hd ps)"
  by (cases ps) (auto simp: first_key_def)

lemma map_of_None_keys: "map_of ps k = None \<longleftrightarrow> k \<notin> fst ` set ps"
  by (simp add: map_of_eq_None_iff)

lemma load_prompts_fields:
  "load_prompts (Some \<lparr>default_prompt = dp, prompts = pr\<rparr>) =
     (let c = (case dp of None \<Rightarrow> ''assistant'' | Some k \<Rightarrow> k);
          ps = (case pr of None \<Rightarrow> [] | Some p \<Rightarrow> p)
      in \<lparr>default_prompt =
            Some (if c \<in> fst ` set ps then c
                  else if ps = [] then ''assistant'' else fst (hd ps)),
          prompts = Some ps\<rparr>)"
proof -
  define c where "c = (case dp of None \<Rightarrow> ''assistant'' | Some k \<Rightarrow> k)"
  define ps where "ps = (case pr of None \<Rightarrow> [] | Some p \<Rightarrow> p)"
  have r: "load_prompts (Some \<lparr>default_prompt = dp, prompts = pr\<rparr>) =
           \<lparr>default_prompt = Some (if map_of ps c = None then first_key ps else c),
            prompts = Some ps\<rparr>"
    by (simp add: load_prompts_def load_prompts_json_def get_prompts_def get_default_prompt_def
          Let_def c_def ps_def)
  have k: "(if map_of ps c = None then first_key ps else c) =
           (if c \<in> fst ` set ps then c else if ps = [] then ''assistant'' else fst (hd ps))"
  proof (cases "c \<in> fst ` set ps")
    case True
    then show ?thesis by (simp add: map_of_None_keys)
  next
    case False
    show ?thesis
    proof (cases "ps = []")
      case True
      then show ?thesis by (simp add: first_key_def)
    next
      case ne: False
      then show ?thesis using False by (simp add: map_of_None_keys first_key_hd)
    qed
  qed
  show ?thesis
    unfolding Let_def c_def [symmetric] ps_def [symmetric] using r k by simp
qed

text \<open>
  C7. For a document with the fields \<open>default_prompt\<close> and \<open>prompts\<close>, \<open>load_prompts\<close>
  returns the modes unchanged and as default: the configured default (\<open>assistant\<close> when
  the field is absent) if it is a key of the modes, the first key of the modes if it is
  not and there is a mode, and \<open>assistant\<close> if there is no mode. So the default is a key
  of the modes whenever there is a mode. A document that cannot be read gives no mode
  and the default \<open>assistant\<close>.
\<close>

theorem load_prompts_default:
  "load_prompts (Some \<lparr>default_prompt = dp, prompts = pr\<rparr>) =
     (let c = (case dp of None \<Rightarrow> ''assistant'' | Some k \<Rightarrow> k);
          ps = (case pr of None \<Rightarrow> [] | Some p \<Rightarrow> p)
      in \<lparr>default_prompt =
            Some (if c \<in> fst ` set ps then c
                  else if ps = [] then ''assistant'' else fst (hd ps)),
          prompts = Some ps\<rparr>) \<and>
   load_prompts None = \<lparr>default_prompt = Some ''assistant'', prompts = Some []\<rparr> \<and>
   (c \<in> fst ` set ps \<longrightarrow>
      default_prompt (load_prompts (Some \<lparr>default_prompt = Some c, prompts = Some ps\<rparr>)) = Some c) \<and>
   (c \<notin> fst ` set ps \<and> ps \<noteq> [] \<longrightarrow>
      default_prompt (load_prompts (Some \<lparr>default_prompt = Some c, prompts = Some ps\<rparr>)) =
        Some (fst (hd ps)) \<and> fst (hd ps) \<in> fst ` set ps) \<and>
   default_prompt (load_prompts (Some \<lparr>default_prompt = dp, prompts = Some []\<rparr>)) = Some ''assistant'' \<and>
   (\<exists>k qs. default_prompt (load_prompts doc) = Some k \<and> prompts (load_prompts doc) = Some qs \<and>
      (qs \<noteq> [] \<longrightarrow> k \<in> fst ` set qs) \<and> (qs = [] \<longrightarrow> k = ''assistant''))"
proof (intro conjI impI)
  show eq: "load_prompts (Some \<lparr>default_prompt = dp, prompts = pr\<rparr>) =
     (let c = (case dp of None \<Rightarrow> ''assistant'' | Some k \<Rightarrow> k);
          ps = (case pr of None \<Rightarrow> [] | Some p \<Rightarrow> p)
      in \<lparr>default_prompt =
            Some (if c \<in> fst ` set ps then c
                  else if ps = [] then ''assistant'' else fst (hd ps)),
          prompts = Some ps\<rparr>)" for dp pr
    by (rule load_prompts_fields)
  show "load_prompts None = \<lparr>default_prompt = Some ''assistant'', prompts = Some []\<rparr>"
    by (simp add: load_prompts_def load_prompts_json_def get_prompts_def get_default_prompt_def
          empty_data_def Let_def first_key_def)
  show "default_prompt (load_prompts (Some \<lparr>default_prompt = Some c, prompts = Some ps\<rparr>)) = Some c"
    if "c \<in> fst ` set ps"
    using that by (simp add: eq)
  show "default_prompt (load_prompts (Some \<lparr>default_prompt = Some c, prompts = Some ps\<rparr>)) =
        Some (fst (hd ps))"
    if "c \<notin> fst ` set ps \<and> ps \<noteq> []"
    using that by (simp add: eq)
  show "fst (hd ps) \<in> fst ` set ps" if "c \<notin> fst ` set ps \<and> ps \<noteq> []"
    using that by simp
  show "default_prompt (load_prompts (Some \<lparr>default_prompt = dp, prompts = Some []\<rparr>)) = Some ''assistant''"
    by (simp add: eq)
  let ?ps = "get_prompts (load_prompts_json doc)"
  let ?d = "get_default_prompt (load_prompts_json doc)"
  let ?k = "if map_of ?ps ?d = None then first_key ?ps else ?d"
  have r: "load_prompts doc = \<lparr>default_prompt = Some ?k, prompts = Some ?ps\<rparr>"
    by (simp add: load_prompts_def Let_def)
  have m: "?ps \<noteq> [] \<longrightarrow> ?k \<in> fst ` set ?ps"
    by (auto simp: first_key_member map_of_None_keys)
  have emp: "?ps = [] \<longrightarrow> ?k = ''assistant''"
    by (simp add: first_key_def)
  show "\<exists>k qs. default_prompt (load_prompts doc) = Some k \<and> prompts (load_prompts doc) = Some qs \<and>
      (qs \<noteq> [] \<longrightarrow> k \<in> fst ` set qs) \<and> (qs = [] \<longrightarrow> k = ''assistant'')"
    using r m emp by (intro exI [of _ ?k] exI [of _ ?ps]) simp
qed

theorem load_prompts_default_witness:
  "default_prompt (load_prompts (Some \<lparr>default_prompt = Some ''missing'',
       prompts = Some [(''a'', \<lparr>name = Some ''A'', description = None, system_prompt = Some ''be A''\<rparr>)]\<rparr>))
     = Some ''a'' \<and>
   default_prompt (load_prompts (Some \<lparr>default_prompt = Some ''missing'',
       prompts = Some [(''x'', no_prompt), (''assistant'', no_prompt)]\<rparr>)) = Some ''x'' \<and>
   default_prompt (load_prompts (Some \<lparr>default_prompt = Some ''dev'',
       prompts = Some [(''assistant'', no_prompt), (''dev'', no_prompt)]\<rparr>)) = Some ''dev'' \<and>
   default_prompt (load_prompts (Some \<lparr>default_prompt = None,
       prompts = Some [(''x'', no_prompt), (''assistant'', no_prompt)]\<rparr>)) = Some ''assistant'' \<and>
   default_prompt (load_prompts (Some \<lparr>default_prompt = Some ''dev'', prompts = Some []\<rparr>))
     = Some ''assistant'' \<and>
   default_prompt (load_prompts None) = Some ''assistant''"
  using
    load_prompts_default [of "Some ''dev''" "None" "''missing''"
      "[(''a'', \<lparr>name = Some ''A'', description = None, system_prompt = Some ''be A''\<rparr>)]" None]
    load_prompts_default [of "Some ''dev''" "None" "''missing''"
      "[(''x'', no_prompt), (''assistant'', no_prompt)]" None]
    load_prompts_default [of "Some ''dev''" "None" "''dev''"
      "[(''assistant'', no_prompt), (''dev'', no_prompt)]" None]
    load_prompts_default [of None "Some [(''x'', no_prompt), (''assistant'', no_prompt)]" "''dev''"
      "[(''assistant'', no_prompt), (''dev'', no_prompt)]" None]
  by (simp add: Let_def)

text \<open>
  C8, as amended. With \<open>dflt\<close> the default of the catalog (\<open>assistant\<close> when it names
  none) and \<open>ps\<close> its modes (none when the key is absent), \<open>get_system_prompt\<close> looks
  up the given mode, or \<open>dflt\<close> when the mode is null or the empty string. If that key
  has an entry, the result is its system prompt; if it has none, the result is the system
  prompt of the entry \<open>assistant\<close>; if there is no such entry either, the result is the
  fallback text. The fallback text is also the result when the entry that was found,
  under the key or under \<open>assistant\<close>, has no system prompt. With an empty catalog the
  result is the fallback text.
\<close>

theorem get_system_prompt_chain:
  "get_system_prompt \<lparr>default_prompt = None, prompts = None\<rparr> None = fallback_prompt \<and>
   ((case default_prompt d of None \<Rightarrow> ''assistant'' | Some k \<Rightarrow> k) = dflt \<and>
    (case prompts d of None \<Rightarrow> [] | Some p \<Rightarrow> p) = ps \<longrightarrow>
      resolve_mode d None = dflt \<and>
      resolve_mode d (Some []) = dflt \<and>
      (k \<noteq> [] \<longrightarrow> resolve_mode d (Some k) = k) \<and>
      (map_of ps (resolve_mode d m) = Some e \<and> system_prompt e = Some s \<longrightarrow>
         get_system_prompt d m = s) \<and>
      (map_of ps (resolve_mode d m) = Some e \<and> system_prompt e = None \<longrightarrow>
         get_system_prompt d m = fallback_prompt) \<and>
      (map_of ps (resolve_mode d m) = None \<and>
       map_of ps ''assistant'' = Some e \<and> system_prompt e = Some s \<longrightarrow>
         get_system_prompt d m = s) \<and>
      (map_of ps (resolve_mode d m) = None \<and>
       map_of ps ''assistant'' = Some e \<and> system_prompt e = None \<longrightarrow>
         get_system_prompt d m = fallback_prompt) \<and>
      (map_of ps (resolve_mode d m) = None \<and> map_of ps ''assistant'' = None \<longrightarrow>
         get_system_prompt d m = fallback_prompt) \<and>
      (ps = [] \<longrightarrow> get_system_prompt d m = fallback_prompt))"
proof (intro conjI impI)
  show "get_system_prompt \<lparr>default_prompt = None, prompts = None\<rparr> None = fallback_prompt"
    by (simp add: get_system_prompt_def Let_def no_prompt_def get_prompts_def)
next
  assume a: "(case default_prompt d of None \<Rightarrow> ''assistant'' | Some k \<Rightarrow> k) = dflt \<and>
             (case prompts d of None \<Rightarrow> [] | Some p \<Rightarrow> p) = ps"
  then have dd: "get_default_prompt d = dflt" and pp: "get_prompts d = ps"
    by (simp_all add: get_default_prompt_def get_prompts_def)
  show "resolve_mode d None = dflt"
    by (simp add: resolve_mode_def dd)
  show "resolve_mode d (Some []) = dflt"
    by (simp add: resolve_mode_def dd)
  show "resolve_mode d (Some k) = k" if "k \<noteq> []"
    using that by (simp add: resolve_mode_def)
  show "get_system_prompt d m = s"
    if "map_of ps (resolve_mode d m) = Some e \<and> system_prompt e = Some s"
    using that by (simp add: get_system_prompt_def Let_def pp)
  show "get_system_prompt d m = fallback_prompt"
    if "map_of ps (resolve_mode d m) = Some e \<and> system_prompt e = None"
    using that by (simp add: get_system_prompt_def Let_def pp)
  show "get_system_prompt d m = s"
    if "map_of ps (resolve_mode d m) = None \<and>
        map_of ps ''assistant'' = Some e \<and> system_prompt e = Some s"
    using that by (simp add: get_system_prompt_def Let_def pp)
  show "get_system_prompt d m = fallback_prompt"
    if "map_of ps (resolve_mode d m) = None \<and>
        map_of ps ''assistant'' = Some e \<and> system_prompt e = None"
    using that by (simp add: get_system_prompt_def Let_def pp)
  show "get_system_prompt d m = fallback_prompt"
    if "map_of ps (resolve_mode d m) = None \<and> map_of ps ''assistant'' = None"
    using that by (simp add: get_system_prompt_def Let_def no_prompt_def pp)
  show "get_system_prompt d m = fallback_prompt" if "ps = []"
    using that pp by (simp add: get_system_prompt_def Let_def no_prompt_def)
qed

theorem get_system_prompt_chain_witness:
  "get_system_prompt
     \<lparr>default_prompt = Some ''dev'',
      prompts = Some [(''assistant'', \<lparr>name = None, description = None, system_prompt = Some ''help''\<rparr>),
                      (''dev'', \<lparr>name = None, description = None, system_prompt = Some ''code''\<rparr>),
                      (''bare'', \<lparr>name = None, description = None, system_prompt = None\<rparr>)]\<rparr>
     None = ''code'' \<and>
   get_system_prompt
     \<lparr>default_prompt = Some ''dev'',
      prompts = Some [(''assistant'', \<lparr>name = None, description = None, system_prompt = Some ''help''\<rparr>),
                      (''dev'', \<lparr>name = None, description = None, system_prompt = Some ''code''\<rparr>),
                      (''bare'', \<lparr>name = None, description = None, system_prompt = None\<rparr>)]\<rparr>
     (Some ''nope'') = ''help'' \<and>
   get_system_prompt
     \<lparr>default_prompt = Some ''dev'',
      prompts = Some [(''assistant'', \<lparr>name = None, description = None, system_prompt = Some ''help''\<rparr>),
                      (''dev'', \<lparr>name = None, description = None, system_prompt = Some ''code''\<rparr>),
                      (''bare'', \<lparr>name = None, description = None, system_prompt = None\<rparr>)]\<rparr>
     (Some ''bare'') = fallback_prompt \<and>
   get_system_prompt
     \<lparr>default_prompt = Some ''dev'',
      prompts = Some [(''assistant'', \<lparr>name = Some ''A'', description = None, system_prompt = None\<rparr>),
                      (''dev'', \<lparr>name = None, description = None, system_prompt = Some ''code''\<rparr>)]\<rparr>
     (Some ''nope'') = fallback_prompt \<and>
   get_system_prompt
     \<lparr>default_prompt = Some ''dev'',
      prompts = Some [(''dev'', \<lparr>name = None, description = None, system_prompt = Some ''code''\<rparr>)]\<rparr>
     (Some ''nope'') = fallback_prompt \<and>
   get_system_prompt \<lparr>default_prompt = Some ''dev'', prompts = Some []\<rparr> None = fallback_prompt"
  using
    get_system_prompt_chain [where d =
     "\<lparr>default_prompt = Some ''dev'',
      prompts = Some [(''assistant'', \<lparr>name = None, description = None, system_prompt = Some ''help''\<rparr>),
                      (''dev'', \<lparr>name = None, description = None, system_prompt = Some ''code''\<rparr>),
                      (''bare'', \<lparr>name = None, description = None, system_prompt = None\<rparr>)]\<rparr>"
     and dflt = "''dev''" and k = "''x''" and m = None
     and ps = "[(''assistant'', \<lparr>name = None, description = None, system_prompt = Some ''help''\<rparr>),
                      (''dev'', \<lparr>name = None, description = None, system_prompt = Some ''code''\<rparr>),
                      (''bare'', \<lparr>name = None, description = None, system_prompt = None\<rparr>)]"
     and e = "\<lparr>name = None, description = None, system_prompt = Some ''code''\<rparr>" and s = "''code''"]
    get_system_prompt_chain [where d =
     "\<lparr>default_prompt = Some ''dev'',
      prompts = Some [(''assistant'', \<lparr>name = None, description = None, system_prompt = Some ''help''\<rparr>),
                      (''dev'', \<lparr>name = None, description = None, system_prompt = Some ''code''\<rparr>),
                      (''bare'', \<lparr>name = None, description = None, system_prompt = None\<rparr>)]\<rparr>"
     and dflt = "''dev''" and k = "''nope''" and m = "Some ''nope''"
     and ps = "[(''assistant'', \<lparr>name = None, description = None, system_prompt = Some ''help''\<rparr>),
                      (''dev'', \<lparr>name = None, description = None, system_prompt = Some ''code''\<rparr>),
                      (''bare'', \<lparr>name = None, description = None, system_prompt = None\<rparr>)]"
     and e = "\<lparr>name = None, description = None, system_prompt = Some ''help''\<rparr>" and s = "''help''"]
    get_system_prompt_chain [where d =
     "\<lparr>default_prompt = Some ''dev'',
      prompts = Some [(''assistant'', \<lparr>name = None, description = None, system_prompt = Some ''help''\<rparr>),
                      (''dev'', \<lparr>name = None, description = None, system_prompt = Some ''code''\<rparr>),
                      (''bare'', \<lparr>name = None, description = None, system_prompt = None\<rparr>)]\<rparr>"
     and dflt = "''dev''" and k = "''bare''" and m = "Some ''bare''"
     and ps = "[(''assistant'', \<lparr>name = None, description = None, system_prompt = Some ''help''\<rparr>),
                      (''dev'', \<lparr>name = None, description = None, system_prompt = Some ''code''\<rparr>),
                      (''bare'', \<lparr>name = None, description = None, system_prompt = None\<rparr>)]"
     and e = "\<lparr>name = None, description = None, system_prompt = None\<rparr>" and s = "''help''"]
    get_system_prompt_chain [where d =
     "\<lparr>default_prompt = Some ''dev'',
      prompts = Some [(''assistant'', \<lparr>name = Some ''A'', description = None, system_prompt = None\<rparr>),
                      (''dev'', \<lparr>name = None, description = None, system_prompt = Some ''code''\<rparr>)]\<rparr>"
     and dflt = "''dev''" and k = "''nope''" and m = "Some ''nope''"
     and ps = "[(''assistant'', \<lparr>name = Some ''A'', description = None, system_prompt = None\<rparr>),
                      (''dev'', \<lparr>name = None, description = None, system_prompt = Some ''code''\<rparr>)]"
     and e = "\<lparr>name = Some ''A'', description = None, system_prompt = None\<rparr>" and s = "''help''"]
    get_system_prompt_chain [where d =
     "\<lparr>default_prompt = Some ''dev'',
      prompts = Some [(''dev'', \<lparr>name = None, description = None, system_prompt = Some ''code''\<rparr>)]\<rparr>"
     and dflt = "''dev''" and k = "''nope''" and m = "Some ''nope''"
     and ps = "[(''dev'', \<lparr>name = None, description = None, system_prompt = Some ''code''\<rparr>)]"
     and e = "\<lparr>name = None, description = None, system_prompt = None\<rparr>" and s = "''help''"]
    get_system_prompt_chain [where d = "\<lparr>default_prompt = Some ''dev'', prompts = Some []\<rparr>"
     and dflt = "''dev''" and k = "''x''" and m = None and ps = "[]"
     and e = "\<lparr>name = None, description = None, system_prompt = None\<rparr>" and s = "''help''"]
  by simp

text \<open>
  C8 as stated fails for the empty string as mode: with a catalog whose modes have the
  key \<open>''''\<close> and whose default is \<open>b\<close>, the call with mode \<open>''''\<close> returns the system
  prompt of \<open>b\<close>, not the one stored under the given mode.
\<close>

theorem get_system_prompt_empty_mode_counterexample:
  "map_of (get_prompts
     \<lparr>default_prompt = Some ''b'',
      prompts = Some [('''', \<lparr>name = None, description = None, system_prompt = Some ''one''\<rparr>),
                      (''b'', \<lparr>name = None, description = None, system_prompt = Some ''two''\<rparr>)]\<rparr>) ''''
     = Some \<lparr>name = None, description = None, system_prompt = Some ''one''\<rparr> \<and>
   get_system_prompt
     \<lparr>default_prompt = Some ''b'',
      prompts = Some [('''', \<lparr>name = None, description = None, system_prompt = Some ''one''\<rparr>),
                      (''b'', \<lparr>name = None, description = None, system_prompt = Some ''two''\<rparr>)]\<rparr>
     (Some '''') = ''two'' \<and>
   ''two'' \<noteq> ''one''"
  by (simp add: get_system_prompt_def resolve_mode_def get_default_prompt_def get_prompts_def Let_def)

end
